theory Spec2Isabelle
  imports Main
begin

section \<open>The address selector component\<close>

text \<open>
  A shallow embedding of \<^verbatim>\<open>src/components/AddressSelector.tsx\<close>: the React component
  that lists a user's saved addresses, pre-selects the default one, and lets the user
  select, add and delete addresses.

  The component's \<^verbatim>\<open>useState\<close> cells are the fields of one record. Each handler is a
  function from the state before the handler runs to the state after it has run to
  completion, together with the trace of what the handler did to the outside world, in
  order: calls of the \<^verbatim>\<open>api\<close> helper, toasts, calls of the parent's callbacks, the
  confirmation prompt and console output. What the outside world answers (the outcome of
  the awaited \<^verbatim>\<open>api\<close> call, the user's answer to \<^verbatim>\<open>window.confirm\<close>) is a parameter
  of the handler. A handler is run in one piece: other handlers interleaving at its
  \<^verbatim>\<open>await\<close> are not part of this model, so the state a handler's closure reads is the
  state before the handler runs. An \<^verbatim>\<open>api\<close> call that never settles is not modelled
  either. The toast function, the parent's callbacks and the state setters are taken to
  return normally.
\<close>

subsection \<open>Data\<close>

text \<open>
  \<^verbatim>\<open>interface Address\<close>. The three optional fields are options; \<^verbatim>\<open>_id\<close> is named
  \<open>x_id\<close> here, since a name cannot start with an underscore.
\<close>

record Address =
  x_id :: "string option"
  name :: string
  phone :: string
  houseNumber :: string
  area :: string
  city :: string
  state :: string
  pincode :: string
  landmark :: "string option"
  isDefault :: "bool option"

text \<open>\<^verbatim>\<open>interface AddressSelectorProps\<close>: the callback \<^verbatim>\<open>onAddressSelected\<close> is always
  there, \<^verbatim>\<open>onAddressCreated\<close> is optional. The callbacks themselves are opaque: a call
  of one is an event of the trace, and what matters of the props is whether the optional
  callback was supplied.\<close>

record AddressSelectorProps =
  onAddressCreated :: bool

text \<open>The state cells of the component, in the order of their \<^verbatim>\<open>useState\<close> calls.\<close>

record component =
  addresses :: "Address list"
  loading :: bool
  showForm :: bool
  selectedAddressId :: "string option"
  formData :: Address
  submitting :: bool

text \<open>The object literal that initialises \<^verbatim>\<open>formData\<close> and that a successful
  submission stores again: eight empty strings, no \<^verbatim>\<open>_id\<close>, no \<^verbatim>\<open>isDefault\<close>.\<close>

definition emptyForm :: Address where
  "emptyForm = \<lparr>x_id = None, name = '''', phone = '''', houseNumber = '''', area = '''',
     city = '''', state = '''', pincode = '''', landmark = Some '''', isDefault = None\<rparr>"

definition initial :: component where
  "initial = \<lparr>addresses = [], loading = True, showForm = False, selectedAddressId = None,
     formData = emptyForm, submitting = False\<rparr>"

subsection \<open>The outside world\<close>

text \<open>
  The \<^verbatim>\<open>api\<close> helper resolves to \<^verbatim>\<open>{ ok, json }\<close> or rejects. Of \<^verbatim>\<open>json\<close> the
  component only reads \<^verbatim>\<open>json?.data\<close> and asks whether it is an array: \<^verbatim>\<open>json\<close> is
  null or undefined, or it is a value whose \<^verbatim>\<open>data\<close> property is absent, is something
  that is not an array, or is an array. The elements of the array are taken to be
  \<^verbatim>\<open>Address\<close> objects, as the source's type annotations declare.
\<close>

datatype data_field = DataAbsent | DataNotArray | DataArray "Address list"

datatype json = Nullish | Body data_field

datatype api_result = Rejected | Resolved bool json

text \<open>The second argument of \<^verbatim>\<open>api\<close>, with its \<^verbatim>\<open>method\<close> property named
  \<open>http_method\<close>. \<^verbatim>\<open>JSON.stringify\<close> is kept as a constructor: the payload is the
  serialisation of the given object, and the text of the serialisation is not modelled.\<close>

datatype payload = JSON_stringify Address

record request_init =
  http_method :: string
  body :: "payload option"

text \<open>A toast: title, description, and the \<^verbatim>\<open>variant\<close> when one is given.\<close>

datatype event =
    Api string "request_init option"
  | Toast string string "string option"
  | OnAddressSelected Address
  | OnAddressCreated
  | Confirm string
  | ConsoleError string
  | StopPropagation

fun is_api :: "event \<Rightarrow> bool" where
  "is_api (Api _ _) = True"
| "is_api _ = False"

fun is_toast :: "event \<Rightarrow> bool" where
  "is_toast (Toast _ _ _) = True"
| "is_toast _ = False"

fun is_callback :: "event \<Rightarrow> bool" where
  "is_callback (OnAddressSelected _) = True"
| "is_callback OnAddressCreated = True"
| "is_callback _ = False"

text \<open>The parts of a trace the claims speak about.\<close>

definition api_calls :: "event list \<Rightarrow> event list" where
  "api_calls evs = filter is_api evs"

definition toasts :: "event list \<Rightarrow> event list" where
  "toasts evs = filter is_toast evs"

definition callbacks :: "event list \<Rightarrow> event list" where
  "callbacks evs = filter is_callback evs"

subsection \<open>JavaScript's tests\<close>

text \<open>\<^verbatim>\<open>json?.data\<close> and \<^verbatim>\<open>Array.isArray\<close>.\<close>

fun data :: "json \<Rightarrow> data_field" where
  "data Nullish = DataAbsent"
| "data (Body d) = d"

fun isArray :: "data_field \<Rightarrow> bool" where
  "isArray (DataArray _) = True"
| "isArray _ = False"

fun elements :: "data_field \<Rightarrow> Address list" where
  "elements (DataArray xs) = xs"
| "elements _ = []"

text \<open>Truthiness: a string is truthy when it is not empty, an optional value when it is
  present and truthy.\<close>

definition truthy :: "string \<Rightarrow> bool" where
  "truthy s = (s \<noteq> [])"

fun truthy_opt :: "string option \<Rightarrow> bool" where
  "truthy_opt None = False"
| "truthy_opt (Some s) = truthy s"

fun truthy_flag :: "bool option \<Rightarrow> bool" where
  "truthy_flag None = False"
| "truthy_flag (Some b) = b"

text \<open>\<^verbatim>\<open>address._id || ''\<close>.\<close>

fun id_or_empty :: "string option \<Rightarrow> string" where
  "id_or_empty None = ''''"
| "id_or_empty (Some s) = (if truthy s then s else '''')"

subsection \<open>The handlers\<close>

text \<open>\<^verbatim>\<open>fetchAddresses\<close>, run once by the mount effect.\<close>

definition fetchAddresses ::
  "api_result \<Rightarrow> component \<Rightarrow> component \<times> event list" where
  "fetchAddresses r s =
     (let s1 = s\<lparr>loading := True\<rparr>;
          call = Api ''/api/auth/addresses'' None
      in case r of
           Rejected \<Rightarrow>
             (s1\<lparr>loading := False\<rparr>, [call, ConsoleError ''Failed to fetch addresses:''])
         | Resolved ok j \<Rightarrow>
             if ok \<and> isArray (data j) then
               (let s2 = s1\<lparr>addresses := elements (data j)\<rparr>
                in case List.find (\<lambda>a. truthy_flag (isDefault a)) (elements (data j)) of
                     None \<Rightarrow> (s2\<lparr>loading := False\<rparr>, [call])
                   | Some defaultAddr \<Rightarrow>
                       if truthy_opt (x_id defaultAddr) then
                         (s2\<lparr>selectedAddressId := x_id defaultAddr, loading := False\<rparr>,
                          [call, OnAddressSelected defaultAddr])
                       else (s2\<lparr>loading := False\<rparr>, [call]))
             else (s1\<lparr>loading := False\<rparr>, [call]))"

definition mount :: "api_result \<Rightarrow> component \<times> event list" where
  "mount r = fetchAddresses r initial"

text \<open>The test that opens \<^verbatim>\<open>handleAddAddress\<close>: some required field is falsy.\<close>

definition missingFields :: "Address \<Rightarrow> bool" where
  "missingFields fd =
     (\<not> truthy (name fd) \<or> \<not> truthy (phone fd) \<or> \<not> truthy (houseNumber fd) \<or>
      \<not> truthy (area fd) \<or> \<not> truthy (city fd) \<or> \<not> truthy (state fd) \<or>
      \<not> truthy (pincode fd))"

definition handleAddAddress ::
  "AddressSelectorProps \<Rightarrow> api_result \<Rightarrow> component \<Rightarrow> component \<times> event list" where
  "handleAddAddress p r s =
     (if missingFields (formData s) then
        (s, [Toast ''Missing Fields'' ''Please fill in all required fields''
               (Some ''destructive'')])
      else
        (let s1 = s\<lparr>submitting := True\<rparr>;
             call = Api ''/api/auth/addresses''
                      (Some \<lparr>http_method = ''POST'', body = Some (JSON_stringify (formData s))\<rparr>)
         in case r of
              Rejected \<Rightarrow>
                (s1\<lparr>submitting := False\<rparr>,
                 [call, ConsoleError ''Failed to add address:'',
                  Toast ''Error'' ''Failed to add address'' (Some ''destructive'')])
            | Resolved ok j \<Rightarrow>
                if ok \<and> isArray (data j) then
                  (s1\<lparr>addresses := elements (data j), showForm := False,
                      formData := emptyForm, submitting := False\<rparr>,
                   [call, Toast ''Address Added'' ''Your address has been saved successfully''
                            None]
                   @ (if onAddressCreated p then [OnAddressCreated] else []))
                else (s1\<lparr>submitting := False\<rparr>, [call])))"

text \<open>\<^verbatim>\<open>handleDeleteAddress\<close>; \<open>confirmed\<close> is what \<^verbatim>\<open>window.confirm\<close> returns.\<close>

definition handleDeleteAddress ::
  "bool \<Rightarrow> api_result \<Rightarrow> string \<Rightarrow> component \<Rightarrow> component \<times> event list" where
  "handleDeleteAddress confirmed r i s =
     (let prompt = Confirm ''Are you sure you want to delete this address?''
      in if \<not> confirmed then (s, [prompt])
         else
           (let call = Api (''/api/auth/addresses/'' @ i)
                         (Some \<lparr>http_method = ''DELETE'', body = None\<rparr>)
            in case r of
                 Rejected \<Rightarrow>
                   (s, [prompt, call, ConsoleError ''Failed to delete address:'',
                        Toast ''Error'' ''Failed to delete address'' (Some ''destructive'')])
               | Resolved ok j \<Rightarrow>
                   if ok \<and> isArray (data j) then
                     (let s1 = s\<lparr>addresses := elements (data j)\<rparr>;
                          s2 = (if selectedAddressId s = Some i
                                then s1\<lparr>selectedAddressId := None\<rparr> else s1)
                      in (s2, [prompt, call,
                               Toast ''Address Deleted'' ''Your address has been removed''
                                 None]))
                   else (s, [prompt, call])))"

subsection \<open>The inline handlers of the rendered controls\<close>

text \<open>The card of an address, its delete button, and the Cancel and
  \<^verbatim>\<open>Add New Address\<close> buttons.\<close>

definition cardOnClick :: "Address \<Rightarrow> component \<Rightarrow> component \<times> event list" where
  "cardOnClick address s =
     (s\<lparr>selectedAddressId := Some (id_or_empty (x_id address))\<rparr>,
      [OnAddressSelected address])"

definition deleteOnClick ::
  "bool \<Rightarrow> api_result \<Rightarrow> Address \<Rightarrow> component \<Rightarrow> component \<times> event list" where
  "deleteOnClick confirmed r address s =
     (let (s', evs) = handleDeleteAddress confirmed r (id_or_empty (x_id address)) s
      in (s', StopPropagation # evs))"

definition cancelOnClick :: "component \<Rightarrow> component \<times> event list" where
  "cancelOnClick s = (s\<lparr>showForm := False\<rparr>, [])"

definition addNewOnClick :: "component \<Rightarrow> component \<times> event list" where
  "addNewOnClick s = (s\<lparr>showForm := True\<rparr>, [])"


subsection \<open>Example inputs\<close>

text \<open>The draft of the specification's example, two saved addresses, and an address
  that carries the default flag but no \<^verbatim>\<open>_id\<close>.\<close>

definition asha :: Address where
  "asha = \<lparr>x_id = None, name = ''Asha Rao'', phone = ''9999999999'', houseNumber = ''12'',
     area = ''MG Road'', city = ''Pune'', state = ''MH'', pincode = ''411001'',
     landmark = Some '''', isDefault = None\<rparr>"

definition home :: Address where
  "home = asha\<lparr>x_id := Some ''a1'', isDefault := Some True\<rparr>"

definition office :: Address where
  "office = asha\<lparr>x_id := Some ''a2'', houseNumber := ''7'', isDefault := Some False\<rparr>"

definition unsaved :: Address where
  "unsaved = asha\<lparr>isDefault := Some True\<rparr>"

text \<open>The component showing two addresses, the first selected, with the creation form
  open on the example draft; the same with no pincode typed yet; and the parent's props.\<close>

definition drafting :: component where
  "drafting = \<lparr>addresses = [home, office], loading = False, showForm = True,
     selectedAddressId = Some ''a1'', formData = asha, submitting = False\<rparr>"

definition incomplete :: component where
  "incomplete = drafting\<lparr>formData := asha\<lparr>pincode := ''''\<rparr>\<rparr>"

definition parent :: AddressSelectorProps where
  "parent = \<lparr>onAddressCreated = True\<rparr>"

section \<open>Properties\<close>

subsection \<open>Auxiliary facts\<close>

lemma truthy_flag_iff: "truthy_flag b = (b = Some True)"
  by (cases b) auto

lemma find_unique: "filter P xs = [a] \<Longrightarrow> List.find P xs = Some a"
  by (induction xs) (auto split: if_splits)

lemma find_absent: "filter P xs = [] \<Longrightarrow> List.find P xs = None"
  by (induction xs) (auto split: if_splits)

lemma asha_complete: "\<not> missingFields asha"
  by (simp add: missingFields_def truthy_def asha_def)

subsection \<open>Creating an address\<close>

text \<open>
  C1. The specification asks for the generic error notification after every failed
  create, whether the \<^verbatim>\<open>api\<close> call throws or resolves with a response that is not
  ok. The handler does so on one of the two paths only. The example draft passes the
  local validation; when the call throws, the "Error" toast with the description
  "Failed to add address" is shown; when the call resolves with a response that is not
  ok, the trace of the handler holds no toast at all. The claim holds on the first path
  and the code misses it on the second.
\<close>

theorem add_non_ok_is_silent:
  "\<not> missingFields (formData drafting)
   \<and> toasts (snd (handleAddAddress parent Rejected drafting)) =
       [Toast ''Error'' ''Failed to add address'' (Some ''destructive'')]
   \<and> toasts (snd (handleAddAddress parent (Resolved False Nullish) drafting)) = []"
  by (simp add: handleAddAddress_def toasts_def drafting_def asha_complete)

theorem add_non_ok_is_silent_witness:
  "toasts (snd (handleAddAddress parent (Resolved False Nullish) drafting)) \<noteq>
     toasts (snd (handleAddAddress parent Rejected drafting))"
  using add_non_ok_is_silent by simp

text \<open>
  C2. For a submission that passes the local validation and whose \<^verbatim>\<open>api\<close> call throws
  or resolves with a response that is not ok, \<^verbatim>\<open>addresses\<close>, \<^verbatim>\<open>formData\<close> and
  \<^verbatim>\<open>showForm\<close> are what they were before the submission; the form that was shown
  stays shown.
\<close>

theorem add_failure_keeps_state:
  assumes "\<not> missingFields (formData s)"
    and "r = Rejected \<or> r = Resolved False j"
  shows "addresses (fst (handleAddAddress p r s)) = addresses s
         \<and> formData (fst (handleAddAddress p r s)) = formData s
         \<and> showForm (fst (handleAddAddress p r s)) = showForm s"
  using assms by (auto simp: handleAddAddress_def)

theorem add_failure_keeps_state_witness:
  "\<not> missingFields (formData drafting)
   \<and> addresses (fst (handleAddAddress parent (Resolved False Nullish) drafting)) = [home, office]
   \<and> formData (fst (handleAddAddress parent (Resolved False Nullish) drafting)) = asha
   \<and> showForm (fst (handleAddAddress parent (Resolved False Nullish) drafting))
   \<and> addresses (fst (handleAddAddress parent Rejected drafting)) = [home, office]
   \<and> formData (fst (handleAddAddress parent Rejected drafting)) = asha
   \<and> showForm (fst (handleAddAddress parent Rejected drafting))"
proof -
  have h: "\<not> missingFields (formData drafting)"
    by (simp add: drafting_def asha_complete)
  have "Resolved False Nullish = Rejected \<or> Resolved False Nullish = Resolved False Nullish"
    by simp
  from add_failure_keeps_state [OF h this, of parent]
  have a: "addresses (fst (handleAddAddress parent (Resolved False Nullish) drafting)) = [home, office]
      \<and> formData (fst (handleAddAddress parent (Resolved False Nullish) drafting)) = asha
      \<and> showForm (fst (handleAddAddress parent (Resolved False Nullish) drafting))"
    by (simp add: drafting_def)
  have "Rejected = Rejected \<or> Rejected = Resolved False Nullish"
    by simp
  from add_failure_keeps_state [OF h this, of parent]
  have b: "addresses (fst (handleAddAddress parent Rejected drafting)) = [home, office]
      \<and> formData (fst (handleAddAddress parent Rejected drafting)) = asha
      \<and> showForm (fst (handleAddAddress parent Rejected drafting))"
    by (simp add: drafting_def)
  from h a b show ?thesis by simp
qed

text \<open>
  C3. When one of the seven required fields of \<^verbatim>\<open>formData\<close> is the empty string, the
  submission calls \<^verbatim>\<open>api\<close> not at all, shows the "Missing Fields" toast and nothing
  else, and leaves the whole state of the component as it was. The landmark is not among
  the tested fields: when the seven required fields are filled, the request is issued
  whatever the landmark is, the empty string and the absent landmark included.
\<close>

theorem add_validation:
  "(name (formData s) = '''' \<or> phone (formData s) = '''' \<or> houseNumber (formData s) = '''' \<or>
    area (formData s) = '''' \<or> city (formData s) = '''' \<or> state (formData s) = '''' \<or>
    pincode (formData s) = ''''
    \<longrightarrow> fst (handleAddAddress p r s) = s
      \<and> api_calls (snd (handleAddAddress p r s)) = []
      \<and> snd (handleAddAddress p r s) =
          [Toast ''Missing Fields'' ''Please fill in all required fields''
             (Some ''destructive'')])
   \<and> (name (formData s) \<noteq> '''' \<and> phone (formData s) \<noteq> '''' \<and> houseNumber (formData s) \<noteq> '''' \<and>
      area (formData s) \<noteq> '''' \<and> city (formData s) \<noteq> '''' \<and> state (formData s) \<noteq> '''' \<and>
      pincode (formData s) \<noteq> ''''
      \<longrightarrow> api_calls (snd (handleAddAddress p r (s\<lparr>formData := (formData s)\<lparr>landmark := l\<rparr>\<rparr>))) =
            [Api ''/api/auth/addresses''
               (Some \<lparr>http_method = ''POST'',
                      body = Some (JSON_stringify ((formData s)\<lparr>landmark := l\<rparr>))\<rparr>)])"
proof (intro conjI impI)
  assume "name (formData s) = '''' \<or> phone (formData s) = '''' \<or> houseNumber (formData s) = '''' \<or>
    area (formData s) = '''' \<or> city (formData s) = '''' \<or> state (formData s) = '''' \<or>
    pincode (formData s) = ''''"
  then have m: "missingFields (formData s)"
    by (auto simp: missingFields_def truthy_def)
  then show "fst (handleAddAddress p r s) = s"
    by (simp add: handleAddAddress_def)
  from m show "api_calls (snd (handleAddAddress p r s)) = []"
    by (simp add: handleAddAddress_def api_calls_def)
  from m show "snd (handleAddAddress p r s) =
      [Toast ''Missing Fields'' ''Please fill in all required fields'' (Some ''destructive'')]"
    by (simp add: handleAddAddress_def)
next
  assume "name (formData s) \<noteq> '''' \<and> phone (formData s) \<noteq> '''' \<and> houseNumber (formData s) \<noteq> '''' \<and>
      area (formData s) \<noteq> '''' \<and> city (formData s) \<noteq> '''' \<and> state (formData s) \<noteq> '''' \<and>
      pincode (formData s) \<noteq> ''''"
  then have "\<not> missingFields ((formData s)\<lparr>landmark := l\<rparr>)"
    by (simp add: missingFields_def truthy_def)
  then show "api_calls (snd (handleAddAddress p r (s\<lparr>formData := (formData s)\<lparr>landmark := l\<rparr>\<rparr>))) =
            [Api ''/api/auth/addresses''
               (Some \<lparr>http_method = ''POST'',
                      body = Some (JSON_stringify ((formData s)\<lparr>landmark := l\<rparr>))\<rparr>)]"
    by (cases r) (simp_all add: handleAddAddress_def api_calls_def Let_def)
qed

theorem add_validation_witness:
  "pincode (formData incomplete) = ''''
   \<and> fst (handleAddAddress parent (Resolved True (Body (DataArray [home]))) incomplete) = incomplete
   \<and> api_calls (snd (handleAddAddress parent (Resolved True (Body (DataArray [home]))) incomplete)) = []
   \<and> snd (handleAddAddress parent (Resolved True (Body (DataArray [home]))) incomplete) =
       [Toast ''Missing Fields'' ''Please fill in all required fields'' (Some ''destructive'')]
   \<and> api_calls (snd (handleAddAddress parent Rejected
        (drafting\<lparr>formData := asha\<lparr>landmark := None\<rparr>\<rparr>))) =
       [Api ''/api/auth/addresses''
          (Some \<lparr>http_method = ''POST'', body = Some (JSON_stringify (asha\<lparr>landmark := None\<rparr>))\<rparr>)]"
proof -
  have e: "pincode (formData incomplete) = ''''"
    by (simp add: incomplete_def)
  have f: "name (formData drafting) \<noteq> '''' \<and> phone (formData drafting) \<noteq> '''' \<and>
      houseNumber (formData drafting) \<noteq> '''' \<and> area (formData drafting) \<noteq> '''' \<and>
      city (formData drafting) \<noteq> '''' \<and> state (formData drafting) \<noteq> '''' \<and>
      pincode (formData drafting) \<noteq> ''''"
    by (simp add: drafting_def asha_def)
  from add_validation [of incomplete parent "Resolved True (Body (DataArray [home]))"] e
  have a: "fst (handleAddAddress parent (Resolved True (Body (DataArray [home]))) incomplete) = incomplete
   \<and> api_calls (snd (handleAddAddress parent (Resolved True (Body (DataArray [home]))) incomplete)) = []
   \<and> snd (handleAddAddress parent (Resolved True (Body (DataArray [home]))) incomplete) =
       [Toast ''Missing Fields'' ''Please fill in all required fields'' (Some ''destructive'')]"
    by blast
  from add_validation [of drafting parent Rejected None] f
  have b: "api_calls (snd (handleAddAddress parent Rejected
        (drafting\<lparr>formData := (formData drafting)\<lparr>landmark := None\<rparr>\<rparr>))) =
       [Api ''/api/auth/addresses''
          (Some \<lparr>http_method = ''POST'',
                 body = Some (JSON_stringify ((formData drafting)\<lparr>landmark := None\<rparr>))\<rparr>)]"
    by blast
  have c: "formData drafting = asha"
    by (simp add: drafting_def)
  from e a b [unfolded c] show ?thesis by blast
qed

text \<open>
  C4. A submission with the seven required fields filled calls \<^verbatim>\<open>api\<close> exactly once:
  a POST to the address collection whose body is the serialised \<^verbatim>\<open>formData\<close>. When
  the response is ok and its \<^verbatim>\<open>data\<close> is a list, then afterwards \<^verbatim>\<open>addresses\<close> is that
  list (so has its length), the form is hidden, \<^verbatim>\<open>formData\<close> is the all-empty draft,
  the "Address Added" toast is shown, and \<^verbatim>\<open>onAddressCreated\<close> is called once when the
  parent supplied it and never otherwise.
\<close>

theorem add_success:
  assumes "name (formData s) \<noteq> ''''" and "phone (formData s) \<noteq> ''''"
    and "houseNumber (formData s) \<noteq> ''''" and "area (formData s) \<noteq> ''''"
    and "city (formData s) \<noteq> ''''" and "state (formData s) \<noteq> ''''"
    and "pincode (formData s) \<noteq> ''''"
  shows "api_calls (snd (handleAddAddress p r s)) =
           [Api ''/api/auth/addresses''
              (Some \<lparr>http_method = ''POST'', body = Some (JSON_stringify (formData s))\<rparr>)]
         \<and> (r = Resolved True (Body (DataArray xs)) \<longrightarrow>
              addresses (fst (handleAddAddress p r s)) = xs
              \<and> length (addresses (fst (handleAddAddress p r s))) = length xs
              \<and> \<not> showForm (fst (handleAddAddress p r s))
              \<and> formData (fst (handleAddAddress p r s)) = emptyForm
              \<and> toasts (snd (handleAddAddress p r s)) =
                  [Toast ''Address Added'' ''Your address has been saved successfully'' None]
              \<and> callbacks (snd (handleAddAddress p r s)) =
                  (if onAddressCreated p then [OnAddressCreated] else []))"
proof -
  from assms have m: "\<not> missingFields (formData s)"
    by (simp add: missingFields_def truthy_def)
  then have calls: "api_calls (snd (handleAddAddress p r s)) =
           [Api ''/api/auth/addresses''
              (Some \<lparr>http_method = ''POST'', body = Some (JSON_stringify (formData s))\<rparr>)]"
    by (cases r) (simp_all add: handleAddAddress_def api_calls_def Let_def)
  from m have "r = Resolved True (Body (DataArray xs)) \<Longrightarrow>
      handleAddAddress p r s =
        (s\<lparr>submitting := True, addresses := xs, showForm := False, formData := emptyForm,
            submitting := False\<rparr>,
         [Api ''/api/auth/addresses''
            (Some \<lparr>http_method = ''POST'', body = Some (JSON_stringify (formData s))\<rparr>),
          Toast ''Address Added'' ''Your address has been saved successfully'' None]
         @ (if onAddressCreated p then [OnAddressCreated] else []))"
    by (simp add: handleAddAddress_def)
  then have "r = Resolved True (Body (DataArray xs)) \<Longrightarrow>
      addresses (fst (handleAddAddress p r s)) = xs
      \<and> length (addresses (fst (handleAddAddress p r s))) = length xs
      \<and> \<not> showForm (fst (handleAddAddress p r s))
      \<and> formData (fst (handleAddAddress p r s)) = emptyForm
      \<and> toasts (snd (handleAddAddress p r s)) =
          [Toast ''Address Added'' ''Your address has been saved successfully'' None]
      \<and> callbacks (snd (handleAddAddress p r s)) =
          (if onAddressCreated p then [OnAddressCreated] else [])"
    by (simp add: toasts_def callbacks_def)
  with calls show ?thesis by blast
qed

theorem add_success_witness:
  "api_calls (snd (handleAddAddress parent
       (Resolved True (Body (DataArray [home, office, unsaved]))) drafting)) =
     [Api ''/api/auth/addresses''
        (Some \<lparr>http_method = ''POST'', body = Some (JSON_stringify asha)\<rparr>)]
   \<and> addresses (fst (handleAddAddress parent
       (Resolved True (Body (DataArray [home, office, unsaved]))) drafting)) =
       [home, office, unsaved]
   \<and> length (addresses (fst (handleAddAddress parent
       (Resolved True (Body (DataArray [home, office, unsaved]))) drafting))) = 3
   \<and> \<not> showForm (fst (handleAddAddress parent
       (Resolved True (Body (DataArray [home, office, unsaved]))) drafting))
   \<and> name (formData (fst (handleAddAddress parent
       (Resolved True (Body (DataArray [home, office, unsaved]))) drafting))) = ''''
   \<and> callbacks (snd (handleAddAddress parent
       (Resolved True (Body (DataArray [home, office, unsaved]))) drafting)) =
       [OnAddressCreated]"
proof -
  have c: "formData drafting = asha"
    by (simp add: drafting_def)
  have f: "name asha \<noteq> ''''" "phone asha \<noteq> ''''" "houseNumber asha \<noteq> ''''"
    "area asha \<noteq> ''''" "city asha \<noteq> ''''" "state asha \<noteq> ''''" "pincode asha \<noteq> ''''"
    by (simp_all add: asha_def)
  from add_success [of drafting parent
      "Resolved True (Body (DataArray [home, office, unsaved]))" "[home, office, unsaved]",
      unfolded c, OF f]
  show ?thesis
    by (simp add: emptyForm_def parent_def)
qed

text \<open>
  C9, as amended. After a successful submission \<^verbatim>\<open>formData\<close> is the all-empty draft.
  The Cancel button hides the form and writes nothing else: \<^verbatim>\<open>formData\<close>, like every
  other cell but \<^verbatim>\<open>showForm\<close>, is what it was before the click.
\<close>

theorem formData_reset_on_success_only:
  "(\<not> missingFields (formData s) \<longrightarrow>
      formData (fst (handleAddAddress p (Resolved True (Body (DataArray xs))) s)) = emptyForm)
   \<and> cancelOnClick s = (s\<lparr>showForm := False\<rparr>, [])
   \<and> formData (fst (cancelOnClick s)) = formData s"
  by (simp add: handleAddAddress_def cancelOnClick_def)

theorem formData_reset_on_success_only_witness:
  "\<not> missingFields (formData drafting)
   \<and> formData (fst (handleAddAddress parent (Resolved True (Body (DataArray [home]))) drafting)) =
       emptyForm
   \<and> formData (fst (cancelOnClick drafting)) = asha"
proof -
  have h: "\<not> missingFields (formData drafting)"
    by (simp add: drafting_def asha_complete)
  have c: "formData drafting = asha"
    by (simp add: drafting_def)
  from formData_reset_on_success_only [of drafting parent "[home]"] h c
  show ?thesis by simp
qed

text \<open>
  C9 as the specification states it fails: cancelling the form that holds the example
  draft leaves a draft whose name is still "Asha Rao", which is not the all-empty draft.
\<close>

theorem cancel_keeps_draft:
  "name (formData (fst (cancelOnClick drafting))) = ''Asha Rao''
   \<and> formData (fst (cancelOnClick drafting)) \<noteq> emptyForm"
  by (simp add: cancelOnClick_def drafting_def asha_def emptyForm_def)

subsection \<open>Loading the addresses\<close>

text \<open>
  C5, as amended. Let the loaded list hold exactly one element \<open>a\<close> whose
  \<^verbatim>\<open>isDefault\<close> is true. If \<open>a\<close> has a non-empty \<^verbatim>\<open>_id\<close>, that id becomes
  \<^verbatim>\<open>selectedAddressId\<close> and \<^verbatim>\<open>onAddressSelected\<close> is called exactly once, with
  \<open>a\<close>, and no other callback is called. If no element of the loaded list has the flag,
  \<^verbatim>\<open>selectedAddressId\<close> keeps its value and no callback is called; the load runs at
  mount, where the selection is unset, so it stays unset.
\<close>

theorem load_selects_default:
  "(filter (\<lambda>a. isDefault a = Some True) xs = [a] \<and> x_id a = Some i \<and> i \<noteq> '''' \<longrightarrow>
      selectedAddressId (fst (fetchAddresses (Resolved True (Body (DataArray xs))) s)) = Some i
      \<and> callbacks (snd (fetchAddresses (Resolved True (Body (DataArray xs))) s)) =
          [OnAddressSelected a])
   \<and> (filter (\<lambda>a. isDefault a = Some True) xs = [] \<longrightarrow>
      selectedAddressId (fst (fetchAddresses (Resolved True (Body (DataArray xs))) s)) =
        selectedAddressId s
      \<and> selectedAddressId (fst (mount (Resolved True (Body (DataArray xs))))) = None
      \<and> callbacks (snd (fetchAddresses (Resolved True (Body (DataArray xs))) s)) = [])"
proof (intro conjI impI)
  assume h: "filter (\<lambda>a. isDefault a = Some True) xs = [a] \<and> x_id a = Some i \<and> i \<noteq> ''''"
  then have "List.find (\<lambda>a. truthy_flag (isDefault a)) xs = Some a"
    by (simp add: truthy_flag_iff find_unique)
  moreover from h have "truthy_opt (x_id a)"
    by (simp add: truthy_def)
  ultimately have "fetchAddresses (Resolved True (Body (DataArray xs))) s =
      (s\<lparr>loading := True, addresses := xs, selectedAddressId := x_id a, loading := False\<rparr>,
       [Api ''/api/auth/addresses'' None, OnAddressSelected a])"
    by (simp add: fetchAddresses_def)
  with h show
    "selectedAddressId (fst (fetchAddresses (Resolved True (Body (DataArray xs))) s)) = Some i"
    "callbacks (snd (fetchAddresses (Resolved True (Body (DataArray xs))) s)) =
       [OnAddressSelected a]"
    by (simp_all add: callbacks_def)
next
  assume "filter (\<lambda>a. isDefault a = Some True) xs = []"
  then have "List.find (\<lambda>a. truthy_flag (isDefault a)) xs = None"
    by (simp add: truthy_flag_iff find_absent)
  then have e: "fetchAddresses (Resolved True (Body (DataArray xs))) t =
      (t\<lparr>loading := True, addresses := xs, loading := False\<rparr>,
       [Api ''/api/auth/addresses'' None])" for t
    by (simp add: fetchAddresses_def)
  show "selectedAddressId (fst (fetchAddresses (Resolved True (Body (DataArray xs))) s)) =
      selectedAddressId s"
    by (simp add: e)
  show "selectedAddressId (fst (mount (Resolved True (Body (DataArray xs))))) = None"
    by (simp add: mount_def e initial_def)
  show "callbacks (snd (fetchAddresses (Resolved True (Body (DataArray xs))) s)) = []"
    by (simp add: e callbacks_def)
qed

theorem load_selects_default_witness:
  "filter (\<lambda>a. isDefault a = Some True) [office, home] = [home]
   \<and> selectedAddressId (fst (fetchAddresses (Resolved True (Body (DataArray [office, home])))
        initial)) = Some ''a1''
   \<and> callbacks (snd (fetchAddresses (Resolved True (Body (DataArray [office, home])))
        initial)) = [OnAddressSelected home]
   \<and> filter (\<lambda>a. isDefault a = Some True) [office] = []
   \<and> selectedAddressId (fst (mount (Resolved True (Body (DataArray [office]))))) = None
   \<and> callbacks (snd (fetchAddresses (Resolved True (Body (DataArray [office]))) initial)) = []"
proof -
  have one: "filter (\<lambda>a. isDefault a = Some True) [office, home] = [home]"
    by (simp add: office_def home_def)
  have i: "x_id home = Some ''a1''"
    by (simp add: home_def)
  have none: "filter (\<lambda>a. isDefault a = Some True) [office] = []"
    by (simp add: office_def)
  from load_selects_default [of "[office, home]" home "''a1''" initial] one i
  have a: "selectedAddressId (fst (fetchAddresses (Resolved True (Body (DataArray [office, home])))
        initial)) = Some ''a1''
   \<and> callbacks (snd (fetchAddresses (Resolved True (Body (DataArray [office, home])))
        initial)) = [OnAddressSelected home]"
    by simp
  from load_selects_default [of "[office]" home "''a1''" initial] none
  have b: "selectedAddressId (fst (mount (Resolved True (Body (DataArray [office]))))) = None
   \<and> callbacks (snd (fetchAddresses (Resolved True (Body (DataArray [office]))) initial)) = []"
    by simp
  from one none a b show ?thesis by blast
qed

text \<open>
  C5 as the specification states it fails: the loaded list holds one element, it has
  \<^verbatim>\<open>isDefault\<close> true and no \<^verbatim>\<open>_id\<close>, and the load calls no callback.
\<close>

theorem load_default_without_id_not_notified:
  "isDefault unsaved = Some True
   \<and> callbacks (snd (mount (Resolved True (Body (DataArray [unsaved]))))) = []"
  by (simp add: mount_def fetchAddresses_def callbacks_def unsaved_def asha_def)

text \<open>
  C10. When the first element of the loaded list whose \<^verbatim>\<open>isDefault\<close> is true has no
  \<^verbatim>\<open>_id\<close>, the load makes no selection (\<^verbatim>\<open>selectedAddressId\<close> keeps its value, which at
  mount is unset) and calls no callback, whatever follows that element in the list.
\<close>

theorem load_default_needs_id:
  assumes "List.find (\<lambda>a. isDefault a = Some True) xs = Some a"
    and "x_id a = None"
  shows "selectedAddressId (fst (fetchAddresses (Resolved True (Body (DataArray xs))) s)) =
           selectedAddressId s
         \<and> selectedAddressId (fst (mount (Resolved True (Body (DataArray xs))))) = None
         \<and> callbacks (snd (fetchAddresses (Resolved True (Body (DataArray xs))) s)) = []
         \<and> addresses (fst (fetchAddresses (Resolved True (Body (DataArray xs))) s)) = xs"
proof -
  from assms have e: "fetchAddresses (Resolved True (Body (DataArray xs))) t =
      (t\<lparr>loading := True, addresses := xs, loading := False\<rparr>,
       [Api ''/api/auth/addresses'' None])" for t
    by (simp add: fetchAddresses_def truthy_flag_iff)
  show ?thesis
    by (simp add: e mount_def initial_def callbacks_def)
qed

theorem load_default_needs_id_witness:
  "List.find (\<lambda>a. isDefault a = Some True) [office, unsaved, home] = Some unsaved
   \<and> x_id unsaved = None
   \<and> selectedAddressId (fst (mount (Resolved True (Body (DataArray [office, unsaved, home]))))) =
       None
   \<and> callbacks (snd (fetchAddresses (Resolved True (Body (DataArray [office, unsaved, home])))
        initial)) = []"
proof -
  have f: "List.find (\<lambda>a. isDefault a = Some True) [office, unsaved, home] = Some unsaved"
    by (simp add: office_def unsaved_def asha_def)
  have n: "x_id unsaved = None"
    by (simp add: unsaved_def asha_def)
  from load_default_needs_id [OF f n, of initial] f n show ?thesis
    by simp
qed

subsection \<open>Selecting an address\<close>

text \<open>
  C6, as amended. Clicking the card of an address, whatever the selection was before,
  sets \<^verbatim>\<open>selectedAddressId\<close> to the address's \<^verbatim>\<open>_id\<close> when it has one, and to the empty
  string when it has none; it calls \<^verbatim>\<open>onAddressSelected\<close> with the whole address and
  does nothing else: no \<^verbatim>\<open>api\<close> call, and no other cell of the state is written.
\<close>

theorem card_click_selects:
  "selectedAddressId (fst (cardOnClick a s)) =
     Some (case x_id a of None \<Rightarrow> '''' | Some i \<Rightarrow> i)
   \<and> fst (cardOnClick a s) =
       s\<lparr>selectedAddressId := Some (case x_id a of None \<Rightarrow> '''' | Some i \<Rightarrow> i)\<rparr>
   \<and> snd (cardOnClick a s) = [OnAddressSelected a]
   \<and> api_calls (snd (cardOnClick a s)) = []"
  by (cases "x_id a") (simp_all add: cardOnClick_def api_calls_def truthy_def)

theorem card_click_selects_witness:
  "selectedAddressId drafting = Some ''a1''
   \<and> selectedAddressId (fst (cardOnClick office drafting)) = Some ''a2''
   \<and> snd (cardOnClick office drafting) = [OnAddressSelected office]
   \<and> api_calls (snd (cardOnClick office drafting)) = []"
proof -
  have i: "x_id office = Some ''a2''"
    by (simp add: office_def)
  have sel: "selectedAddressId drafting = Some ''a1''"
    by (simp add: drafting_def)
  from card_click_selects [of office drafting, unfolded i option.case] sel show ?thesis
    by blast
qed

text \<open>
  C6 as the specification states it fails: the component shows an address that has no
  \<^verbatim>\<open>_id\<close>, and a click on its card sets \<^verbatim>\<open>selectedAddressId\<close> to the empty string,
  which is not the \<^verbatim>\<open>_id\<close> of that address.
\<close>

theorem card_click_without_id:
  "x_id unsaved = None
   \<and> selectedAddressId (fst (cardOnClick unsaved (drafting\<lparr>addresses := [unsaved]\<rparr>))) = Some ''''
   \<and> selectedAddressId (fst (cardOnClick unsaved (drafting\<lparr>addresses := [unsaved]\<rparr>))) \<noteq>
       x_id unsaved"
  by (simp add: cardOnClick_def unsaved_def asha_def)

subsection \<open>Deleting an address\<close>

text \<open>
  C7. When the user confirms the deletion of the address with id \<open>i\<close> and the response
  is ok with a list as its \<^verbatim>\<open>data\<close>, that list replaces \<^verbatim>\<open>addresses\<close>; the
  selection is cleared when it was \<open>i\<close> and kept otherwise; no callback of the parent
  is called. When the user declines, \<^verbatim>\<open>api\<close> is not called and the state of the
  component is what it was.
\<close>

theorem delete_confirmed_or_declined:
  "(confirmed \<and> r = Resolved True (Body (DataArray xs)) \<longrightarrow>
      addresses (fst (handleDeleteAddress confirmed r i s)) = xs
      \<and> selectedAddressId (fst (handleDeleteAddress confirmed r i s)) =
          (if selectedAddressId s = Some i then None else selectedAddressId s)
      \<and> callbacks (snd (handleDeleteAddress confirmed r i s)) = [])
   \<and> (\<not> confirmed \<longrightarrow>
      fst (handleDeleteAddress confirmed r i s) = s
      \<and> api_calls (snd (handleDeleteAddress confirmed r i s)) = [])"
  by (simp add: handleDeleteAddress_def callbacks_def api_calls_def)

theorem delete_confirmed_or_declined_witness:
  "selectedAddressId drafting = Some ''a1''
   \<and> addresses (fst (handleDeleteAddress True (Resolved True (Body (DataArray [office])))
        ''a1'' drafting)) = [office]
   \<and> selectedAddressId (fst (handleDeleteAddress True (Resolved True (Body (DataArray [office])))
        ''a1'' drafting)) = None
   \<and> callbacks (snd (handleDeleteAddress True (Resolved True (Body (DataArray [office])))
        ''a1'' drafting)) = []
   \<and> fst (handleDeleteAddress False (Resolved True (Body (DataArray [office]))) ''a1'' drafting) =
       drafting
   \<and> api_calls (snd (handleDeleteAddress False (Resolved True (Body (DataArray [office])))
        ''a1'' drafting)) = []"
proof -
  have sel: "selectedAddressId drafting = Some ''a1''"
    by (simp add: drafting_def)
  from delete_confirmed_or_declined
    [of True "Resolved True (Body (DataArray [office]))" "[office]" "''a1''" drafting] sel
  have a: "addresses (fst (handleDeleteAddress True (Resolved True (Body (DataArray [office])))
        ''a1'' drafting)) = [office]
   \<and> selectedAddressId (fst (handleDeleteAddress True (Resolved True (Body (DataArray [office])))
        ''a1'' drafting)) = None
   \<and> callbacks (snd (handleDeleteAddress True (Resolved True (Body (DataArray [office])))
        ''a1'' drafting)) = []"
    by simp
  from delete_confirmed_or_declined
    [of False "Resolved True (Body (DataArray [office]))" "[office]" "''a1''" drafting]
  have b: "fst (handleDeleteAddress False (Resolved True (Body (DataArray [office]))) ''a1''
        drafting) = drafting
   \<and> api_calls (snd (handleDeleteAddress False (Resolved True (Body (DataArray [office])))
        ''a1'' drafting)) = []"
    by simp
  from sel a b show ?thesis by blast
qed

subsection \<open>Malformed responses\<close>

text \<open>
  C8. Let the response of a list, create or delete call be ok, with a \<^verbatim>\<open>data\<close> that is
  missing or is not a list. Then \<^verbatim>\<open>addresses\<close>, \<^verbatim>\<open>selectedAddressId\<close>,
  \<^verbatim>\<open>showForm\<close> and \<^verbatim>\<open>formData\<close> are what they were before the call, and the handler
  shows no toast and calls no callback of the parent. (The create call is made by a
  submission that passes the validation; the delete call by a confirmed deletion.)
\<close>

theorem malformed_response_is_noop:
  assumes "data j = DataAbsent \<or> data j = DataNotArray"
  shows "addresses (fst (fetchAddresses (Resolved True j) s)) = addresses s
         \<and> selectedAddressId (fst (fetchAddresses (Resolved True j) s)) = selectedAddressId s
         \<and> showForm (fst (fetchAddresses (Resolved True j) s)) = showForm s
         \<and> formData (fst (fetchAddresses (Resolved True j) s)) = formData s
         \<and> toasts (snd (fetchAddresses (Resolved True j) s)) = []
         \<and> callbacks (snd (fetchAddresses (Resolved True j) s)) = []
         \<and> (\<not> missingFields (formData s) \<longrightarrow>
              addresses (fst (handleAddAddress p (Resolved True j) s)) = addresses s
              \<and> selectedAddressId (fst (handleAddAddress p (Resolved True j) s)) =
                  selectedAddressId s
              \<and> showForm (fst (handleAddAddress p (Resolved True j) s)) = showForm s
              \<and> formData (fst (handleAddAddress p (Resolved True j) s)) = formData s
              \<and> toasts (snd (handleAddAddress p (Resolved True j) s)) = []
              \<and> callbacks (snd (handleAddAddress p (Resolved True j) s)) = [])
         \<and> fst (handleDeleteAddress True (Resolved True j) i s) = s
         \<and> toasts (snd (handleDeleteAddress True (Resolved True j) i s)) = []
         \<and> callbacks (snd (handleDeleteAddress True (Resolved True j) i s)) = []"
proof -
  from assms have n: "\<not> isArray (data j)"
    by auto
  then have "fetchAddresses (Resolved True j) s =
      (s\<lparr>loading := True, loading := False\<rparr>, [Api ''/api/auth/addresses'' None])"
    by (simp add: fetchAddresses_def)
  then have load: "addresses (fst (fetchAddresses (Resolved True j) s)) = addresses s
      \<and> selectedAddressId (fst (fetchAddresses (Resolved True j) s)) = selectedAddressId s
      \<and> showForm (fst (fetchAddresses (Resolved True j) s)) = showForm s
      \<and> formData (fst (fetchAddresses (Resolved True j) s)) = formData s
      \<and> toasts (snd (fetchAddresses (Resolved True j) s)) = []
      \<and> callbacks (snd (fetchAddresses (Resolved True j) s)) = []"
    by (simp add: toasts_def callbacks_def)
  from n have "\<not> missingFields (formData s) \<Longrightarrow>
      handleAddAddress p (Resolved True j) s =
        (s\<lparr>submitting := True, submitting := False\<rparr>,
         [Api ''/api/auth/addresses''
            (Some \<lparr>http_method = ''POST'', body = Some (JSON_stringify (formData s))\<rparr>)])"
    by (simp add: handleAddAddress_def)
  then have create: "\<not> missingFields (formData s) \<longrightarrow>
      addresses (fst (handleAddAddress p (Resolved True j) s)) = addresses s
      \<and> selectedAddressId (fst (handleAddAddress p (Resolved True j) s)) = selectedAddressId s
      \<and> showForm (fst (handleAddAddress p (Resolved True j) s)) = showForm s
      \<and> formData (fst (handleAddAddress p (Resolved True j) s)) = formData s
      \<and> toasts (snd (handleAddAddress p (Resolved True j) s)) = []
      \<and> callbacks (snd (handleAddAddress p (Resolved True j) s)) = []"
    by (simp add: toasts_def callbacks_def)
  from n have delete: "fst (handleDeleteAddress True (Resolved True j) i s) = s
      \<and> toasts (snd (handleDeleteAddress True (Resolved True j) i s)) = []
      \<and> callbacks (snd (handleDeleteAddress True (Resolved True j) i s)) = []"
    by (simp add: handleDeleteAddress_def toasts_def callbacks_def)
  from load create delete show ?thesis by blast
qed

theorem malformed_response_is_noop_witness:
  "data (Body DataNotArray) = DataNotArray
   \<and> \<not> missingFields (formData drafting)
   \<and> addresses (fst (fetchAddresses (Resolved True (Body DataNotArray)) drafting)) =
       [home, office]
   \<and> selectedAddressId (fst (fetchAddresses (Resolved True (Body DataNotArray)) drafting)) =
       Some ''a1''
   \<and> callbacks (snd (fetchAddresses (Resolved True (Body DataNotArray)) drafting)) = []
   \<and> formData (fst (handleAddAddress parent (Resolved True (Body DataNotArray)) drafting)) = asha
   \<and> showForm (fst (handleAddAddress parent (Resolved True (Body DataNotArray)) drafting))
   \<and> toasts (snd (handleAddAddress parent (Resolved True (Body DataNotArray)) drafting)) = []
   \<and> fst (handleDeleteAddress True (Resolved True (Body DataNotArray)) ''a1'' drafting) = drafting
   \<and> toasts (snd (handleDeleteAddress True (Resolved True (Body DataNotArray)) ''a1''
        drafting)) = []"
proof -
  have d: "data (Body DataNotArray) = DataAbsent \<or> data (Body DataNotArray) = DataNotArray"
    by simp
  have h: "\<not> missingFields (formData drafting)"
    by (simp add: drafting_def asha_complete)
  have s: "addresses drafting = [home, office]" "selectedAddressId drafting = Some ''a1''"
    "formData drafting = asha" "showForm drafting"
    by (simp_all add: drafting_def)
  from malformed_response_is_noop [OF d, of drafting parent "''a1''"] h s
  show ?thesis by simp
qed

end
